theory Spec2Isabelle
  imports Main
begin

section \<open>Form generation from document schemas (flaskext/mongoengine/wtf/orm.py)\<close>

text \<open>
  The module turns the field declarations of a mongoengine document schema into wtforms
  field definitions. The embedding below follows \<^verbatim>\<open>orm.py\<close> function by function:
  the converter registry built by \<^verbatim>\<open>ModelConverter.__init__\<close>, the dispatch of
  \<^verbatim>\<open>ModelConverter.convert\<close>, the \<^verbatim>\<open>conv_*\<close> methods, the schema walk
  \<^verbatim>\<open>model_fields\<close> and the class synthesis \<^verbatim>\<open>model_form\<close>.
\<close>

subsection \<open>Python values\<close>

text \<open>
  Attribute values of schema fields are dynamically typed. \<open>VObj\<close> is an opaque object
  (a compiled pattern, a callable default, a class): Python objects are true unless they
  say otherwise. Numbers are integers here; \<open>truthy\<close> is Python's truth test, as used by
  \<^verbatim>\<open>if x:\<close> and \<^verbatim>\<open>x or y\<close>.
\<close>

datatype pyval = VNone | VBool bool | VInt int | VStr string
  | VList "pyval list" | VTuple "pyval list" | VObj string

fun truthy :: "pyval \<Rightarrow> bool" where
  "truthy VNone = False"
| "truthy (VBool b) = b"
| "truthy (VInt i) = (i \<noteq> 0)"
| "truthy (VStr s) = (s \<noteq> [])"
| "truthy (VList xs) = (xs \<noteq> [])"
| "truthy (VTuple xs) = (xs \<noteq> [])"
| "truthy (VObj n) = True"

datatype error = TypeError | KeyError | AttributeError | AssertionError

text \<open>
  A length attribute of a field (\<^verbatim>\<open>max_length\<close>, \<^verbatim>\<open>min_length\<close>, \<^verbatim>\<open>max_bytes\<close>) is
  \<^verbatim>\<open>None\<close> or an integer: \<open>truthy_int\<close> is its truth test and \<open>int_or\<close> is
  \<^verbatim>\<open>x or d\<close> on it.
\<close>

definition truthy_int :: "int option \<Rightarrow> bool" where
  "truthy_int x = (case x of None \<Rightarrow> False | Some n \<Rightarrow> n \<noteq> 0)"

definition int_or :: "int option \<Rightarrow> int \<Rightarrow> int" where
  "int_or x d = (if truthy_int x then (case x of None \<Rightarrow> d | Some n \<Rightarrow> n) else d)"

subsection \<open>The schema side: field descriptors and document classes\<close>

text \<open>
  Every mongoengine field has the attributes of \<^verbatim>\<open>BaseField\<close>; the attribute
  \<^verbatim>\<open>default\<close> is \<open>default_val\<close> here. A field descriptor is one constructor per field
  class that \<^verbatim>\<open>orm.py\<close> names in a \<^verbatim>\<open>@converts\<close> decorator, with the attributes the
  converters read, and \<open>OtherField\<close> for any other class: it carries its class name and
  whether it has a \<^verbatim>\<open>to_form_field\<close> method. A document class is its name, the names of
  the classes of its method resolution order, \<^verbatim>\<open>_fields_order\<close> when it has that
  attribute, and the dictionary \<^verbatim>\<open>_fields\<close> (\<open>fields_dict\<close>) as an association list
  (its order is the iteration order of the dictionary).
\<close>

record BaseField =
  name :: pyval
  default_val :: pyval
  required :: bool
  choices :: pyval

datatype field =
    StringField (base: BaseField) (regex: pyval) (max_length: "int option") (min_length: "int option")
  | URLField (base: BaseField) (regex: pyval) (max_length: "int option") (min_length: "int option")
  | EmailField (base: BaseField) (regex: pyval) (max_length: "int option") (min_length: "int option")
  | IntField (base: BaseField) (min_value: pyval) (max_value: pyval)
  | FloatField (base: BaseField) (min_value: pyval) (max_value: pyval)
  | DecimalField (base: BaseField) (min_value: pyval) (max_value: pyval)
  | BooleanField (base: BaseField)
  | DateTimeField (base: BaseField)
  | BinaryField (base: BaseField) (max_bytes: "int option")
  | DictField (base: BaseField)
  | ListField (base: BaseField) (inner_field: field)
  | SortedListField (base: BaseField) (inner_field: field)
  | GeoLocationField (base: BaseField)
  | ObjectIdField (base: BaseField)
  | EmbeddedDocumentField (base: BaseField) (document_type_obj: model)
  | ReferenceField (base: BaseField) (document_type: pyval)
  | GenericReferenceField (base: BaseField)
  | OtherField (class_name: string) (base: BaseField) (has_to_form_field: bool)
and model =
    Model (model_name: string) (mro: "string list")
      (fields_order: "string list option") (fields_dict: "(string \<times> field) list")

text \<open>\<^verbatim>\<open>type(field).__name__\<close>\<close>

fun type_name :: "field \<Rightarrow> string" where
  "type_name (StringField b rx mx mn) = ''StringField''"
| "type_name (URLField b rx mx mn) = ''URLField''"
| "type_name (EmailField b rx mx mn) = ''EmailField''"
| "type_name (IntField b mn mx) = ''IntField''"
| "type_name (FloatField b mn mx) = ''FloatField''"
| "type_name (DecimalField b mn mx) = ''DecimalField''"
| "type_name (BooleanField b) = ''BooleanField''"
| "type_name (DateTimeField b) = ''DateTimeField''"
| "type_name (BinaryField b mb) = ''BinaryField''"
| "type_name (DictField b) = ''DictField''"
| "type_name (ListField b f) = ''ListField''"
| "type_name (SortedListField b f) = ''SortedListField''"
| "type_name (GeoLocationField b) = ''GeoLocationField''"
| "type_name (ObjectIdField b) = ''ObjectIdField''"
| "type_name (EmbeddedDocumentField b m) = ''EmbeddedDocumentField''"
| "type_name (ReferenceField b d) = ''ReferenceField''"
| "type_name (GenericReferenceField b) = ''GenericReferenceField''"
| "type_name (OtherField n b t) = n"

subsection \<open>The form side: validators, keyword arguments, form fields\<close>

text \<open>
  A validator or a form field of wtforms is the constructor that was called with the
  arguments it was given. \<open>Length\<close> takes \<^verbatim>\<open>max\<close> then \<^verbatim>\<open>min\<close>, and \<open>None\<close> for a
  keyword that the call does not pass; \<open>NumberRange\<close> takes \<^verbatim>\<open>max\<close> then \<^verbatim>\<open>min\<close>.
  \<open>OtherValidator\<close> is a validator that only a caller can supply.
\<close>

datatype validator =
    Required
  | Length (length_max: "pyval option") (length_min: "pyval option")
  | NumberRange (range_max: pyval) (range_min: pyval)
  | Regexp pyval
  | URL
  | Email
  | OtherValidator string

text \<open>
  Of the wtforms constructors that \<^verbatim>\<open>orm.py\<close> calls, \<^verbatim>\<open>validators.Length\<close> is the one
  that can raise: \<^verbatim>\<open>Length.__init__(self, min=-1, max=-1, message=None)\<close> starts with
  \<^verbatim>\<open>assert min != -1 or max != -1\<close> and \<^verbatim>\<open>assert max == -1 or min <= max\<close>.
  \<open>Length_init max_arg min_arg\<close> is the call \<^verbatim>\<open>validators.Length(max=..., min=...)\<close>, with
  \<open>None\<close> for a keyword that is not passed; \<open>length_args_ok\<close> says that both assertions
  hold.
\<close>

definition length_args_ok :: "int option \<Rightarrow> int option \<Rightarrow> bool" where
  "length_args_ok max_arg min_arg =
    (let mx = (case max_arg of None \<Rightarrow> - 1 | Some v \<Rightarrow> v);
         mn = (case min_arg of None \<Rightarrow> - 1 | Some v \<Rightarrow> v)
     in (mn \<noteq> - 1 \<or> mx \<noteq> - 1) \<and> (mx = - 1 \<or> mn \<le> mx))"

definition Length_init :: "int option \<Rightarrow> int option \<Rightarrow> error + validator" where
  "Length_init max_arg min_arg =
    (if length_args_ok max_arg min_arg
     then Inr (Length (map_option VInt max_arg) (map_option VInt min_arg))
     else Inl AssertionError)"

text \<open>
  The dictionary \<^verbatim>\<open>kwargs\<close> of \<^verbatim>\<open>convert\<close> always has the five base keys; \<open>kw_choices\<close>
  is \<open>None\<close> while the key \<^verbatim>\<open>'choices'\<close> is absent, and \<open>kw_extra\<close> holds every other key.
  A dictionary of overrides (one value of \<^verbatim>\<open>field_args\<close>) is the list of its items;
  \<open>kwargs_update\<close> is \<^verbatim>\<open>kwargs.update(field_args)\<close>. The code appends validators to the
  list object under \<^verbatim>\<open>'validators'\<close> in place; \<open>kw_validators\<close> is what that list holds
  when the form field is constructed. Without an override of \<^verbatim>\<open>'validators'\<close> the list
  is the one \<^verbatim>\<open>convert\<close> creates, and nothing else refers to it. With an override it is
  the caller's own list, and \<open>Validators vs\<close> gives its contents \<open>vs\<close> at the time of the
  call: what a caller's list holds after later conversions have appended to it is not
  part of this model, and a property below that counts the validators of a form field is
  stated for overrides that leave \<^verbatim>\<open>'validators'\<close> alone.
\<close>

record kwargs =
  kw_label :: pyval
  kw_description :: pyval
  kw_validators :: "validator list"
  kw_filters :: "pyval list"
  kw_default :: pyval
  kw_choices :: "pyval option"
  kw_extra :: "(string \<times> pyval) list"

datatype kwarg =
    Label pyval
  | Description pyval
  | Validators "validator list"
  | Filters "pyval list"
  | Default pyval
  | Choices pyval
  | Extra string pyval

fun dict_set :: "'k \<Rightarrow> 'v \<Rightarrow> ('k \<times> 'v) list \<Rightarrow> ('k \<times> 'v) list" where
  "dict_set k v [] = [(k, v)]"
| "dict_set k v (p # ps) = (if fst p = k then (k, v) # ps else p # dict_set k v ps)"

fun set_kwarg :: "kwargs \<Rightarrow> kwarg \<Rightarrow> kwargs" where
  "set_kwarg kw (Label v) = kw\<lparr>kw_label := v\<rparr>"
| "set_kwarg kw (Description v) = kw\<lparr>kw_description := v\<rparr>"
| "set_kwarg kw (Validators vs) = kw\<lparr>kw_validators := vs\<rparr>"
| "set_kwarg kw (Filters fs) = kw\<lparr>kw_filters := fs\<rparr>"
| "set_kwarg kw (Default v) = kw\<lparr>kw_default := v\<rparr>"
| "set_kwarg kw (Choices v) = kw\<lparr>kw_choices := Some v\<rparr>"
| "set_kwarg kw (Extra k v) = kw\<lparr>kw_extra := dict_set k v (kw_extra kw)\<rparr>"

definition kwargs_update :: "kwargs \<Rightarrow> kwarg list \<Rightarrow> kwargs" where
  "kwargs_update kw items = foldl set_kwarg kw items"

text \<open>\<^verbatim>\<open>kwargs['validators'].append(v)\<close>\<close>

definition validators_append :: "kwargs \<Rightarrow> validator \<Rightarrow> kwargs" where
  "validators_append kw v = kw\<lparr>kw_validators := kw_validators kw @ [v]\<rparr>"

text \<open>
  A form field is the wtforms class that was called (\<^verbatim>\<open>f.TextField\<close> is \<open>f_TextField\<close>)
  with its keyword arguments. \<open>f_FieldList\<close> and \<open>f_FormField\<close> take their positional
  argument first, then (for the list) \<^verbatim>\<open>min_entries\<close>, then the two keys of the
  dictionary the converter builds for them, \<^verbatim>\<open>validators\<close> and \<^verbatim>\<open>filters\<close>. A form
  class, as \<^verbatim>\<open>type(name, (base_class,), field_dict)\<close> makes it, is its name, its base
  class and its attribute dictionary, where \<^verbatim>\<open>model_class\<close> holds the schema.
\<close>

text \<open>
  Modelled from the spec: \<^verbatim>\<open>ModelSelectField\<close> is a class of
  \<^verbatim>\<open>flaskext/mongoengine/wtf/fields.py\<close>, which is not among the sources. The spec says
  of it that it is a selection field whose choices come from the referenced schema's
  stored instances, so it is a constructor that keeps the referenced class and the
  keyword arguments it was called with.
\<close>

datatype form_field =
    f_SelectField kwargs
  | f_TextField kwargs
  | f_TextAreaField kwargs
  | f_IntegerField kwargs
  | f_FloatField kwargs
  | f_DecimalField kwargs
  | f_BooleanField kwargs
  | f_DateTimeField kwargs
  | f_FieldList "form_field option" int "validator list" "pyval list"
  | f_FormField form_class "validator list" "pyval list"
  | ModelSelectField pyval kwargs
and form_class =
    FormClass (form_name: string) (form_base: pyval) (form_dict: "(string \<times> class_attr) list")
and class_attr = FieldAttr form_field | ModelAttr model

subsection \<open>The converter registry\<close>

text \<open>
  A registry value is a method of the converter itself, by name, or a function that the
  caller supplied. A caller's function is a total function of the schema, the field and
  the keyword arguments that returns a form field or nothing. A field's own
  \<^verbatim>\<open>to_form_field\<close> method is code of the schema, not of this module: every function
  that can reach it takes it as its first argument.
\<close>

type_synonym caller_fn = "model \<Rightarrow> field \<Rightarrow> kwargs \<Rightarrow> form_field option"

datatype converter_fn =
    BoundMethod string
  | CallerFn caller_fn

type_synonym to_form_field = "field \<Rightarrow> model \<Rightarrow> kwargs \<Rightarrow> form_field option"

datatype ModelConverter =
    ModelConverter (converters: "string \<rightharpoonup> converter_fn")

text \<open>
  The methods that carry \<^verbatim>\<open>_converter_for\<close>, in the order of \<^verbatim>\<open>dir(self)\<close> (sorted by
  name), each with the class names its \<^verbatim>\<open>@converts\<close> decorator lists.
\<close>

definition decorated_methods :: "(string \<times> string list) list" where
  "decorated_methods =
    [(''conv_Binary'', [''BinaryField'']),
     (''conv_Boolean'', [''BooleanField'']),
     (''conv_DateTime'', [''DateTimeField'']),
     (''conv_Decimal'', [''DecimalField'']),
     (''conv_Dict'', [''DictField'']),
     (''conv_Email'', [''EmailField'']),
     (''conv_EmbeddedDocument'', [''EmbeddedDocumentField'']),
     (''conv_Float'', [''FloatField'']),
     (''conv_GenericReference'', [''GenericReferenceField'']),
     (''conv_GeoLocation'', [''GeoLocationField'']),
     (''conv_Int'', [''IntField'']),
     (''conv_List'', [''ListField'']),
     (''conv_ObjectId'', [''ObjectIdField'']),
     (''conv_Reference'', [''ReferenceField'']),
     (''conv_SortedList'', [''SortedListField'']),
     (''conv_String'', [''StringField'']),
     (''conv_URL'', [''URLField''])]"

text \<open>
  \<^verbatim>\<open>ModelConverter.__init__\<close>: the caller's dictionary of functions (a new dictionary
  when it is \<^verbatim>\<open>None\<close> or empty) is the starting point, and the loop over the decorated
  methods then assigns \<^verbatim>\<open>converters[classname] = obj\<close> for each of their class names.
\<close>

definition register_method ::
  "string \<times> string list \<Rightarrow> (string \<rightharpoonup> converter_fn) \<Rightarrow> (string \<rightharpoonup> converter_fn)" where
  "register_method m cs = fold (\<lambda>classname cs. cs(classname \<mapsto> BoundMethod (fst m))) (snd m) cs"

definition ModelConverter_init :: "(string \<rightharpoonup> caller_fn) option \<Rightarrow> ModelConverter" where
  "ModelConverter_init converters_arg =
    (let converters = (case converters_arg of
                         None \<Rightarrow> Map.empty
                       | Some cs \<Rightarrow> (\<lambda>classname. map_option CallerFn (cs classname)))
     in ModelConverter (fold register_method decorated_methods converters))"

subsection \<open>The converters that do not recurse\<close>

text \<open>
  Reading an attribute that the field's class does not have raises \<^verbatim>\<open>AttributeError\<close>;
  the three predicates say which classes have the attributes a converter reads.
\<close>

fun has_length_attrs :: "field \<Rightarrow> bool" where
  "has_length_attrs (StringField b rx mx mn) = True"
| "has_length_attrs (URLField b rx mx mn) = True"
| "has_length_attrs (EmailField b rx mx mn) = True"
| "has_length_attrs _ = False"

fun has_value_attrs :: "field \<Rightarrow> bool" where
  "has_value_attrs (IntField b mn mx) = True"
| "has_value_attrs (FloatField b mn mx) = True"
| "has_value_attrs (DecimalField b mn mx) = True"
| "has_value_attrs _ = False"

fun hasattr_to_form_field :: "field \<Rightarrow> bool" where
  "hasattr_to_form_field (OtherField n b t) = t"
| "hasattr_to_form_field _ = False"

definition string_common :: "model \<Rightarrow> field \<Rightarrow> kwargs \<Rightarrow> error + kwargs" where
  "string_common model field kwargs =
    (if \<not> has_length_attrs field then Inl AttributeError
     else if truthy_int (max_length field) \<or> truthy_int (min_length field)
       then (case Length_init (Some (int_or (max_length field) (- 1)))
                              (Some (int_or (min_length field) (- 1))) of
               Inl e \<Rightarrow> Inl e
             | Inr v \<Rightarrow> Inr (validators_append kwargs v))
       else Inr kwargs)"

definition number_common :: "model \<Rightarrow> field \<Rightarrow> kwargs \<Rightarrow> error + kwargs" where
  "number_common model field kwargs =
    (if \<not> has_value_attrs field then Inl AttributeError
     else if truthy (max_value field) \<or> truthy (min_value field)
       then Inr (validators_append kwargs (NumberRange (max_value field) (min_value field)))
       else Inr kwargs)"

definition conv_String ::
  "ModelConverter \<Rightarrow> model \<Rightarrow> field \<Rightarrow> kwargs \<Rightarrow> error + form_field option" where
  "conv_String self model field kwargs =
    (if \<not> has_length_attrs field then Inl AttributeError
     else
       let kwargs = (if truthy (regex field)
                     then validators_append kwargs (Regexp (regex field)) else kwargs)
       in case string_common model field kwargs of
            Inl e \<Rightarrow> Inl e
          | Inr kwargs \<Rightarrow>
              if max_length field = Some (- 1) then Inr (Some (f_TextAreaField kwargs))
              else Inr (Some (f_TextField kwargs)))"

definition conv_URL ::
  "ModelConverter \<Rightarrow> model \<Rightarrow> field \<Rightarrow> kwargs \<Rightarrow> error + form_field option" where
  "conv_URL self model field kwargs =
    (case string_common model field (validators_append kwargs URL) of
       Inl e \<Rightarrow> Inl e
     | Inr kwargs \<Rightarrow> Inr (Some (f_TextField kwargs)))"

definition conv_Email ::
  "ModelConverter \<Rightarrow> model \<Rightarrow> field \<Rightarrow> kwargs \<Rightarrow> error + form_field option" where
  "conv_Email self model field kwargs =
    (case string_common model field (validators_append kwargs Email) of
       Inl e \<Rightarrow> Inl e
     | Inr kwargs \<Rightarrow> Inr (Some (f_TextField kwargs)))"

definition conv_Int ::
  "ModelConverter \<Rightarrow> model \<Rightarrow> field \<Rightarrow> kwargs \<Rightarrow> error + form_field option" where
  "conv_Int self model field kwargs =
    (case number_common model field kwargs of
       Inl e \<Rightarrow> Inl e
     | Inr kwargs \<Rightarrow> Inr (Some (f_IntegerField kwargs)))"

definition conv_Float ::
  "ModelConverter \<Rightarrow> model \<Rightarrow> field \<Rightarrow> kwargs \<Rightarrow> error + form_field option" where
  "conv_Float self model field kwargs =
    (case number_common model field kwargs of
       Inl e \<Rightarrow> Inl e
     | Inr kwargs \<Rightarrow> Inr (Some (f_FloatField kwargs)))"

definition conv_Decimal ::
  "ModelConverter \<Rightarrow> model \<Rightarrow> field \<Rightarrow> kwargs \<Rightarrow> error + form_field option" where
  "conv_Decimal self model field kwargs =
    (case number_common model field kwargs of
       Inl e \<Rightarrow> Inl e
     | Inr kwargs \<Rightarrow> Inr (Some (f_DecimalField kwargs)))"

definition conv_Boolean ::
  "ModelConverter \<Rightarrow> model \<Rightarrow> field \<Rightarrow> kwargs \<Rightarrow> error + form_field option" where
  "conv_Boolean self model field kwargs = Inr (Some (f_BooleanField kwargs))"

definition conv_DateTime ::
  "ModelConverter \<Rightarrow> model \<Rightarrow> field \<Rightarrow> kwargs \<Rightarrow> error + form_field option" where
  "conv_DateTime self model field kwargs = Inr (Some (f_DateTimeField kwargs))"

definition conv_Binary ::
  "ModelConverter \<Rightarrow> model \<Rightarrow> field \<Rightarrow> kwargs \<Rightarrow> error + form_field option" where
  "conv_Binary self model field kwargs =
    (case field of
       BinaryField b mb \<Rightarrow>
         if truthy_int mb
         then (case Length_init mb None of
                 Inl e \<Rightarrow> Inl e
               | Inr v \<Rightarrow> Inr (Some (f_TextAreaField (validators_append kwargs v))))
         else Inr (Some (f_TextAreaField kwargs))
     | _ \<Rightarrow> Inl AttributeError)"

definition conv_Dict ::
  "ModelConverter \<Rightarrow> model \<Rightarrow> field \<Rightarrow> kwargs \<Rightarrow> error + form_field option" where
  "conv_Dict self model field kwargs = Inr (Some (f_TextAreaField kwargs))"

definition conv_GeoLocation ::
  "ModelConverter \<Rightarrow> model \<Rightarrow> field \<Rightarrow> kwargs \<Rightarrow> error + form_field option" where
  "conv_GeoLocation self model field kwargs = Inr None"

definition conv_ObjectId ::
  "ModelConverter \<Rightarrow> model \<Rightarrow> field \<Rightarrow> kwargs \<Rightarrow> error + form_field option" where
  "conv_ObjectId self model field kwargs = Inr None"

definition conv_Reference ::
  "ModelConverter \<Rightarrow> model \<Rightarrow> field \<Rightarrow> kwargs \<Rightarrow> error + form_field option" where
  "conv_Reference self model field kwargs =
    (case field of
       ReferenceField b dt \<Rightarrow> Inr (Some (ModelSelectField dt kwargs))
     | _ \<Rightarrow> Inl AttributeError)"

definition conv_GenericReference ::
  "ModelConverter \<Rightarrow> model \<Rightarrow> field \<Rightarrow> kwargs \<Rightarrow> error + form_field option" where
  "conv_GenericReference self model field kwargs = Inr None"

subsection \<open>Conversion, the schema walk and the form class\<close>

text \<open>
  \<^verbatim>\<open>convert\<close>, the two list converters, the embedded-document converter,
  \<^verbatim>\<open>model_fields\<close> and \<^verbatim>\<open>model_form\<close> call each other: a list field converts its element
  field with the same converter, an embedded-document field builds the form of its
  document class with \<^verbatim>\<open>model_form(field.document_type_obj, field_args={})\<close>, hence with a
  new default converter. \<open>call_converter\<close> is the call \<^verbatim>\<open>self.converters[ftype](model,
  field, kwargs)\<close>; \<open>model_fields_loop\<close> is the \<^verbatim>\<open>for name in field_names\<close> loop of
  \<^verbatim>\<open>model_fields\<close> (its \<^verbatim>\<open>name\<close> is \<open>fname\<close>), with \<^verbatim>\<open>field_dict\<close> as its accumulator. \<open>ModelForm\<close> is the default
  of \<^verbatim>\<open>base_class\<close>.
\<close>

text \<open>
  Modelled from the spec: \<^verbatim>\<open>ModelForm\<close> is a class of
  \<^verbatim>\<open>flaskext/mongoengine/wtf/models.py\<close>, which is not among the sources. The spec says
  of it only that it is the base form class, so it is an opaque class object.
\<close>

definition ModelForm :: pyval where
  "ModelForm = VObj ''ModelForm''"

function
  convert :: "to_form_field \<Rightarrow> ModelConverter \<Rightarrow> model \<Rightarrow> field \<Rightarrow> kwarg list option
    \<Rightarrow> error + form_field option"
and call_converter :: "to_form_field \<Rightarrow> ModelConverter \<Rightarrow> converter_fn \<Rightarrow> model \<Rightarrow> field
    \<Rightarrow> kwargs \<Rightarrow> error + form_field option"
and conv_List :: "to_form_field \<Rightarrow> ModelConverter \<Rightarrow> model \<Rightarrow> field \<Rightarrow> kwargs
    \<Rightarrow> error + form_field option"
and conv_SortedList :: "to_form_field \<Rightarrow> ModelConverter \<Rightarrow> model \<Rightarrow> field \<Rightarrow> kwargs
    \<Rightarrow> error + form_field option"
and conv_EmbeddedDocument :: "to_form_field \<Rightarrow> ModelConverter \<Rightarrow> model \<Rightarrow> field \<Rightarrow> kwargs
    \<Rightarrow> error + form_field option"
and model_fields :: "to_form_field \<Rightarrow> model \<Rightarrow> string list option \<Rightarrow> string list option
    \<Rightarrow> (string \<rightharpoonup> kwarg list) option \<Rightarrow> ModelConverter option
    \<Rightarrow> error + (string \<times> form_field) list"
and model_fields_loop :: "to_form_field \<Rightarrow> ModelConverter \<Rightarrow> model \<Rightarrow> (string \<rightharpoonup> kwarg list)
    \<Rightarrow> string list \<Rightarrow> (string \<times> form_field) list \<Rightarrow> error + (string \<times> form_field) list"
and model_form :: "to_form_field \<Rightarrow> model \<Rightarrow> pyval \<Rightarrow> string list option \<Rightarrow> string list option
    \<Rightarrow> (string \<rightharpoonup> kwarg list) option \<Rightarrow> ModelConverter option \<Rightarrow> error + form_class"
where
  "convert tff self model field field_args =
    (let kwargs = \<lparr>kw_label = name (base field), kw_description = VStr [],
                   kw_validators = [], kw_filters = [],
                   kw_default = default_val (base field),
                   kw_choices = None, kw_extra = []\<rparr>;
         kwargs = (case field_args of
                     None \<Rightarrow> kwargs
                   | Some items \<Rightarrow> if items \<noteq> [] then kwargs_update kwargs items else kwargs);
         kwargs = (if required (base field) then validators_append kwargs Required
                   else kwargs)
     in if truthy (choices (base field))
        then Inr (Some (f_SelectField (set_kwarg kwargs (Choices (choices (base field))))))
        else if hasattr_to_form_field field then Inr (tff field model kwargs)
        else (case converters self (type_name field) of
                Some fn \<Rightarrow> call_converter tff self fn model field kwargs
              | None \<Rightarrow> Inr None))"
| "call_converter tff self fn model field kwargs =
    (case fn of
       CallerFn g \<Rightarrow> Inr (g model field kwargs)
     | BoundMethod m \<Rightarrow>
         if m = ''conv_String'' then conv_String self model field kwargs
         else if m = ''conv_URL'' then conv_URL self model field kwargs
         else if m = ''conv_Email'' then conv_Email self model field kwargs
         else if m = ''conv_Int'' then conv_Int self model field kwargs
         else if m = ''conv_Float'' then conv_Float self model field kwargs
         else if m = ''conv_Decimal'' then conv_Decimal self model field kwargs
         else if m = ''conv_Boolean'' then conv_Boolean self model field kwargs
         else if m = ''conv_DateTime'' then conv_DateTime self model field kwargs
         else if m = ''conv_Binary'' then conv_Binary self model field kwargs
         else if m = ''conv_Dict'' then conv_Dict self model field kwargs
         else if m = ''conv_List'' then conv_List tff self model field kwargs
         else if m = ''conv_SortedList'' then conv_SortedList tff self model field kwargs
         else if m = ''conv_GeoLocation'' then conv_GeoLocation self model field kwargs
         else if m = ''conv_ObjectId'' then conv_ObjectId self model field kwargs
         else if m = ''conv_EmbeddedDocument''
           then conv_EmbeddedDocument tff self model field kwargs
         else if m = ''conv_Reference'' then conv_Reference self model field kwargs
         else if m = ''conv_GenericReference''
           then conv_GenericReference self model field kwargs
         else Inl AttributeError)"
| "conv_List tff self model field kwargs =
    (case field of
       ListField b element \<Rightarrow>
         (case convert tff self model element (Some []) of
            Inl e \<Rightarrow> Inl e
          | Inr unbound_field \<Rightarrow> Inr (Some (f_FieldList unbound_field 0 [] [])))
     | SortedListField b element \<Rightarrow>
         (case convert tff self model element (Some []) of
            Inl e \<Rightarrow> Inl e
          | Inr unbound_field \<Rightarrow> Inr (Some (f_FieldList unbound_field 0 [] [])))
     | _ \<Rightarrow> Inl AttributeError)"
| "conv_SortedList tff self model field kwargs = conv_List tff self model field kwargs"
| "conv_EmbeddedDocument tff self model field kwargs =
    (case field of
       EmbeddedDocumentField b document_class \<Rightarrow>
         (case model_form tff document_class ModelForm None None (Some Map.empty) None of
            Inl e \<Rightarrow> Inl e
          | Inr form_class \<Rightarrow> Inr (Some (f_FormField form_class [] [])))
     | _ \<Rightarrow> Inl AttributeError)"
| "model_fields tff model only exclude field_args converter =
    (if ''BaseDocument'' \<notin> set (mro model) then Inl TypeError
     else
       let converter = (case converter of Some c \<Rightarrow> c | None \<Rightarrow> ModelConverter_init None);
           field_args = (case field_args of Some d \<Rightarrow> d | None \<Rightarrow> Map.empty);
           field_names = (case fields_order model of
                            Some names \<Rightarrow> names
                          | None \<Rightarrow> map fst (fields_dict model));
           field_names =
             (if only \<noteq> None \<and> only \<noteq> Some []
              then filter (\<lambda>x. x \<in> set (the only)) field_names
              else if exclude \<noteq> None \<and> exclude \<noteq> Some []
              then filter (\<lambda>x. x \<notin> set (the exclude)) field_names
              else field_names)
       in model_fields_loop tff converter model field_args field_names [])"
| "model_fields_loop tff converter model field_args [] field_dict = Inr field_dict"
| "model_fields_loop tff converter model field_args (fname # names) field_dict =
    (case map_of (fields_dict model) fname of
       None \<Rightarrow> Inl KeyError
     | Some model_field \<Rightarrow>
         (case convert tff converter model model_field (field_args fname) of
            Inl e \<Rightarrow> Inl e
          | Inr None \<Rightarrow> model_fields_loop tff converter model field_args names field_dict
          | Inr (Some field) \<Rightarrow>
              model_fields_loop tff converter model field_args names
                (dict_set fname field field_dict)))"
| "model_form tff model base_class only exclude field_args converter =
    (case model_fields tff model only exclude field_args converter of
       Inl e \<Rightarrow> Inl e
     | Inr field_dict \<Rightarrow>
         Inr (FormClass (model_name model @ ''Form'') base_class
               (dict_set ''model_class'' (ModelAttr model)
                  (map (\<lambda>(k, v). (k, FieldAttr v)) field_dict))))"
  by pat_completeness auto

text \<open>
  Every call goes to a smaller field or document class, or stays on the same one and
  moves down the chain \<^verbatim>\<open>model_form\<close>, \<^verbatim>\<open>model_fields\<close>, loop (on a shorter list of
  names), or the chain \<^verbatim>\<open>convert\<close>, call, \<^verbatim>\<open>conv_SortedList\<close>, \<^verbatim>\<open>conv_List\<close>.
\<close>

termination
proof -
  have aux: "map_of xs n = Some f \<Longrightarrow> size f < Suc (size_list (size_prod (\<lambda>x. 0) size) xs)"
    for xs :: "(string \<times> field) list" and n f
    by (induction xs) (auto split: if_splits)
  have sz: "map_of (fields_dict m) n = Some f \<Longrightarrow> size f < size m" for m n f
    using aux [of "fields_dict m" n f] by (cases m) auto
  show ?thesis
    apply (relation "inv_image (less_than <*lex*> less_than <*lex*> less_than)
      (\<lambda>x. case x of
          Inl (Inl (Inl (tff, self, model, field, fa))) \<Rightarrow> (size field, 3::nat, 0::nat)
        | Inl (Inl (Inr (tff, self, fn, model, field, kw))) \<Rightarrow> (size field, 2, 0)
        | Inl (Inr (Inl (tff, self, model, field, kw))) \<Rightarrow> (size field, 0, 0)
        | Inl (Inr (Inr (tff, self, model, field, kw))) \<Rightarrow> (size field, 1, 0)
        | Inr (Inl (Inl (tff, self, model, field, kw))) \<Rightarrow> (size field, 0, 0)
        | Inr (Inl (Inr (tff, model, only, exclude, fa, conv))) \<Rightarrow> (size model, 1, 0)
        | Inr (Inr (Inl (tff, conv, model, fa, names, fd))) \<Rightarrow> (size model, 0, length names)
        | Inr (Inr (Inr (tff, model, bc, only, exclude, fa, conv))) \<Rightarrow> (size model, 2, 0))")
     apply (auto simp: sz)
    done
qed

declare convert.simps [simp del] call_converter.simps [simp del] conv_List.simps [simp del]
  conv_SortedList.simps [simp del] conv_EmbeddedDocument.simps [simp del]
  model_fields.simps [simp del] model_form.simps [simp del]

subsection \<open>Notions used to state the properties\<close>

text \<open>
  \<open>base_kwargs\<close> is the dictionary \<^verbatim>\<open>kwargs\<close> of \<^verbatim>\<open>convert\<close> when it reaches the test of
  \<^verbatim>\<open>field.choices\<close>: the five base keys, updated with the caller's overrides, with the
  required validator appended for a required field.
\<close>

definition base_kwargs :: "field \<Rightarrow> kwarg list option \<Rightarrow> kwargs" where
  "base_kwargs field field_args =
    (let kwargs = \<lparr>kw_label = name (base field), kw_description = VStr [],
                   kw_validators = [], kw_filters = [],
                   kw_default = default_val (base field),
                   kw_choices = None, kw_extra = []\<rparr>;
         kwargs = (case field_args of
                     None \<Rightarrow> kwargs
                   | Some items \<Rightarrow> if items \<noteq> [] then kwargs_update kwargs items else kwargs)
     in if required (base field) then validators_append kwargs Required else kwargs)"

text \<open>
  The method that \<^verbatim>\<open>__init__\<close> registers for a class name: the last decorated method, in
  the order of \<^verbatim>\<open>dir(self)\<close>, whose decorator lists the name.
\<close>

definition default_method :: "string \<Rightarrow> string option" where
  "default_method classname =
    map_option fst (find (\<lambda>m. classname \<in> set (snd m)) (rev decorated_methods))"


text \<open>
  The validator lists that a dictionary of overrides assigns to the key
  \<^verbatim>\<open>'validators'\<close>.
\<close>

fun override_validators :: "kwarg list option \<Rightarrow> validator list list" where
  "override_validators None = []"
| "override_validators (Some items) =
    concat (map (\<lambda>i. case i of Validators vs \<Rightarrow> [vs] | _ \<Rightarrow> []) items)"



text \<open>
  The keyword arguments of the form field of an integer field that has no overrides: the
  base keys with their defaults, and in \<^verbatim>\<open>validators\<close> what conversion appends.
\<close>

definition int_kwargs :: "BaseField \<Rightarrow> pyval \<Rightarrow> pyval \<Rightarrow> kwargs" where
  "int_kwargs b mn mx =
    \<lparr>kw_label = name b, kw_description = VStr [],
     kw_validators = (if required b then [Required] else [])
        @ (if truthy mx \<or> truthy mn then [NumberRange mx mn] else []),
     kw_filters = [], kw_default = default_val b, kw_choices = None, kw_extra = []\<rparr>"



text \<open>
  The parts of \<^verbatim>\<open>model_fields\<close> before its loop: the converter and the overrides it
  uses, the field names of the schema, and the names that are left after the \<^verbatim>\<open>only\<close>
  and \<^verbatim>\<open>exclude\<close> filters.
\<close>

definition converter_or_default :: "ModelConverter option \<Rightarrow> ModelConverter" where
  "converter_or_default converter =
    (case converter of Some c \<Rightarrow> c | None \<Rightarrow> ModelConverter_init None)"

definition field_args_or_empty :: "(string \<rightharpoonup> kwarg list) option \<Rightarrow> (string \<rightharpoonup> kwarg list)" where
  "field_args_or_empty field_args = (case field_args of Some d \<Rightarrow> d | None \<Rightarrow> Map.empty)"

definition schema_field_names :: "model \<Rightarrow> string list" where
  "schema_field_names model =
    (case fields_order model of Some names \<Rightarrow> names | None \<Rightarrow> map fst (fields_dict model))"

definition walked_names :: "model \<Rightarrow> string list option \<Rightarrow> string list option \<Rightarrow> string list" where
  "walked_names model only exclude =
    (if only \<noteq> None \<and> only \<noteq> Some []
     then filter (\<lambda>x. x \<in> set (the only)) (schema_field_names model)
     else if exclude \<noteq> None \<and> exclude \<noteq> Some []
     then filter (\<lambda>x. x \<notin> set (the exclude)) (schema_field_names model)
     else schema_field_names model)"

text \<open>
  The schema of the round-trip property, an embedded document class with
  \<^verbatim>\<open>name = StringField(max_length=50, required=True)\<close>, \<^verbatim>\<open>age = IntField(min_value=0)\<close>
  and \<^verbatim>\<open>tags = ListField(StringField())\<close>, and a schema system in which no field
  converts itself. The element field of a list has no name.
\<close>

definition no_to_form_field :: to_form_field where
  "no_to_form_field field model kwargs = None"

definition plain :: "pyval \<Rightarrow> bool \<Rightarrow> BaseField" where
  "plain n r = \<lparr>name = n, default_val = VNone, required = r, choices = VNone\<rparr>"

definition Person :: model where
  "Person =
    Model ''Person'' [''Person'', ''EmbeddedDocument'', ''BaseDocument'', ''object''] None
      [(''name'', StringField (plain (VStr ''name'') True) VNone (Some 50) None),
       (''age'', IntField (plain (VStr ''age'') False) (VInt 0) VNone),
       (''tags'', ListField (plain (VStr ''tags'') False)
                   (StringField (plain VNone False) VNone None None))]"

text \<open>
  A geo-location field that declares a choice list,
  \<^verbatim>\<open>GeoLocationField(choices=[('N', 'North'), ('S', 'South')])\<close>.
\<close>

definition compass :: field where
  "compass =
    GeoLocationField
      \<lparr>name = VStr ''compass'', default_val = VNone, required = False,
       choices = VList [VTuple [VStr ''N'', VStr ''North''], VTuple [VStr ''S'', VStr ''South'']]\<rparr>"

text \<open>
  A document with its object-id field and the geo-location field above; a converter
  function of a caller; a field of a class that no decorated method handles; a string
  field with a pattern, \<^verbatim>\<open>StringField(regex='[A-Z]+', max_length=8)\<close>.
\<close>

definition Place :: model where
  "Place =
    Model ''Place'' [''Place'', ''Document'', ''BaseDocument'', ''object''] None
      [(''id'', ObjectIdField (plain (VStr ''id'') False)),
       (''compass'', compass)]"

definition caller_string :: caller_fn where
  "caller_string model field kwargs = Some (f_BooleanField kwargs)"

definition uuid_field :: field where
  "uuid_field = OtherField ''UUIDField'' (plain (VStr ''uuid'') False) False"

definition code_field :: field where
  "code_field = StringField (plain (VStr ''code'') False) (VObj ''[A-Z]+'') (Some 8) None"




definition unbounded_text :: field where
  "unbounded_text = StringField (plain (VStr ''body'') False) VNone (Some (- 1)) None"


section \<open>Properties\<close>

subsection \<open>The registry and the first steps of conversion\<close>

lemma register_method_apply:
  "register_method m reg n = (if n \<in> set (snd m) then Some (BoundMethod (fst m)) else reg n)"
proof -
  have "fold (\<lambda>classname cs. cs(classname \<mapsto> BoundMethod a)) xs reg n
      = (if n \<in> set xs then Some (BoundMethod a) else reg n)" for a xs
    by (induction xs arbitrary: reg) auto
  then show ?thesis by (simp add: register_method_def)
qed

lemma fold_register_method:
  "fold register_method ms reg n =
    (case find (\<lambda>m. n \<in> set (snd m)) (rev ms) of
       Some m \<Rightarrow> Some (BoundMethod (fst m))
     | None \<Rightarrow> reg n)"
  by (induction ms rule: rev_induct) (simp_all add: register_method_apply)

lemma converters_init:
  "converters (ModelConverter_init cs) n =
    (case default_method n of
       Some m \<Rightarrow> Some (BoundMethod m)
     | None \<Rightarrow> (case cs of None \<Rightarrow> None | Some d \<Rightarrow> map_option CallerFn (d n)))"
  by (simp add: ModelConverter_init_def default_method_def fold_register_method
      split: option.splits)

lemma default_method_names:
  "default_method ''StringField'' = Some ''conv_String''"
  "default_method ''URLField'' = Some ''conv_URL''"
  "default_method ''EmailField'' = Some ''conv_Email''"
  "default_method ''IntField'' = Some ''conv_Int''"
  "default_method ''FloatField'' = Some ''conv_Float''"
  "default_method ''DecimalField'' = Some ''conv_Decimal''"
  "default_method ''BooleanField'' = Some ''conv_Boolean''"
  "default_method ''DateTimeField'' = Some ''conv_DateTime''"
  "default_method ''BinaryField'' = Some ''conv_Binary''"
  "default_method ''DictField'' = Some ''conv_Dict''"
  "default_method ''ListField'' = Some ''conv_List''"
  "default_method ''SortedListField'' = Some ''conv_SortedList''"
  "default_method ''GeoLocationField'' = Some ''conv_GeoLocation''"
  "default_method ''ObjectIdField'' = Some ''conv_ObjectId''"
  "default_method ''EmbeddedDocumentField'' = Some ''conv_EmbeddedDocument''"
  "default_method ''ReferenceField'' = Some ''conv_Reference''"
  "default_method ''GenericReferenceField'' = Some ''conv_GenericReference''"
  by (simp_all add: default_method_def decorated_methods_def)

lemma convert_unfold:
  "convert tff self model field field_args =
    (if truthy (choices (base field))
     then Inr (Some (f_SelectField (set_kwarg (base_kwargs field field_args)
            (Choices (choices (base field))))))
     else if hasattr_to_form_field field
     then Inr (tff field model (base_kwargs field field_args))
     else (case converters self (type_name field) of
             Some fn \<Rightarrow> call_converter tff self fn model field (base_kwargs field field_args)
           | None \<Rightarrow> Inr None))"
  by (simp add: convert.simps base_kwargs_def Let_def cong: option.case_cong if_cong)

lemma kwargs_update_keeps_validators:
  "override_validators (Some items) = [] \<Longrightarrow>
   kw_validators (kwargs_update kw items) = kw_validators kw"
  unfolding kwargs_update_def
proof (induction items arbitrary: kw)
  case Nil
  then show ?case by simp
next
  case (Cons i items)
  from Cons.prems have i: "kw_validators (set_kwarg kw i) = kw_validators kw"
    by (cases i) auto
  from Cons.prems have "override_validators (Some items) = []"
    by simp
  from Cons.IH [OF this, of "set_kwarg kw i"] i show ?case by simp
qed

lemma base_kwargs_validators:
  assumes "override_validators fa = []"
  shows "kw_validators (base_kwargs field fa)
    = (if required (base field) then [Required] else [])"
proof (cases fa)
  case None
  then show ?thesis
    by (simp add: base_kwargs_def validators_append_def)
next
  case (Some items)
  with assms kwargs_update_keeps_validators [of items] show ?thesis
    by (simp add: base_kwargs_def validators_append_def Let_def)
qed

lemma map_of_dict_set:
  "map_of (dict_set k v ps) n = (if n = k then Some v else map_of ps n)"
  by (induction ps) auto



subsection \<open>The loop of the schema walk\<close>

lemma model_fields_unfold:
  "model_fields tff model only exclude field_args converter =
    (if ''BaseDocument'' \<notin> set (mro model) then Inl TypeError
     else model_fields_loop tff (converter_or_default converter) model
            (field_args_or_empty field_args) (walked_names model only exclude) [])"
  by (simp add: model_fields.simps converter_or_default_def field_args_or_empty_def
      walked_names_def schema_field_names_def Let_def cong: if_cong)

lemma loop_map_of:
  "model_fields_loop tff c m fa names acc = Inr d \<Longrightarrow>
   map_of d n =
     (if n \<in> set names
      then (case map_of (fields_dict m) n of
              Some f \<Rightarrow> (case convert tff c m f (fa n) of
                           Inr (Some ff) \<Rightarrow> Some ff
                         | _ \<Rightarrow> map_of acc n)
            | None \<Rightarrow> map_of acc n)
      else map_of acc n)"
proof (induction names arbitrary: acc)
  case Nil
  then show ?case by simp
next
  case (Cons a names)
  then obtain f where f: "map_of (fields_dict m) a = Some f"
    by (cases "map_of (fields_dict m) a") auto
  with Cons.prems obtain r where r: "convert tff c m f (fa a) = Inr r"
    by (cases "convert tff c m f (fa a)") auto
  show ?case
  proof (cases r)
    case None
    with Cons.prems f r have "model_fields_loop tff c m fa names acc = Inr d" by simp
    from Cons.IH [OF this] show ?thesis using f r None by auto
  next
    case (Some ff)
    with Cons.prems f r
    have "model_fields_loop tff c m fa names (dict_set a ff acc) = Inr d" by simp
    from Cons.IH [OF this] show ?thesis using f r Some
      by (auto simp: map_of_dict_set split: option.splits sum.splits)
  qed
qed

lemma loop_succeeds_iff:
  "(\<exists>d. model_fields_loop tff c m fa names acc = Inr d) \<longleftrightarrow>
   (\<forall>n \<in> set names. \<exists>f r. map_of (fields_dict m) n = Some f \<and> convert tff c m f (fa n) = Inr r)"
proof (induction names arbitrary: acc)
  case Nil
  then show ?case by simp
next
  case (Cons a names)
  show ?case
  proof (cases "map_of (fields_dict m) a")
    case None
    then show ?thesis by simp
  next
    case (Some f)
    show ?thesis
    proof (cases "convert tff c m f (fa a)")
      case (Inl e)
      with Some show ?thesis by simp
    next
      case (Inr r)
      with Some Cons.IH show ?thesis by (cases r) auto
    qed
  qed
qed

lemma loop_keys:
  assumes "model_fields_loop tff c m fa names acc = Inr d"
  shows "fst ` set d = fst ` set acc \<union>
     {n \<in> set names. \<exists>f ff. map_of (fields_dict m) n = Some f
        \<and> convert tff c m f (fa n) = Inr (Some ff)}"
proof -
  have "n \<in> dom (map_of d) \<longleftrightarrow> n \<in> dom (map_of acc) \<or>
     (n \<in> set names \<and> (\<exists>f ff. map_of (fields_dict m) n = Some f
        \<and> convert tff c m f (fa n) = Inr (Some ff)))" for n
    using loop_map_of [OF assms, of n]
    by (cases "map_of (fields_dict m) n"; cases "convert tff c m (the (map_of (fields_dict m) n)) (fa n)")
       (auto simp: domIff split: option.splits if_splits)
  then have "dom (map_of d) = dom (map_of acc) \<union>
     {n \<in> set names. \<exists>f ff. map_of (fields_dict m) n = Some f
        \<and> convert tff c m f (fa n) = Inr (Some ff)}"
    by blast
  then show ?thesis by (simp add: dom_map_of_conv_image_fst)
qed

text \<open>The definitions that evaluate a conversion on a concrete schema.\<close>

lemmas eval_defs = ModelConverter_init_def decorated_methods_def register_method_def
  conv_String_def conv_URL_def conv_Email_def conv_Int_def conv_Float_def conv_Decimal_def
  conv_Boolean_def conv_DateTime_def conv_Binary_def conv_Dict_def conv_GeoLocation_def
  conv_ObjectId_def conv_Reference_def conv_GenericReference_def
  string_common_def number_common_def validators_append_def
  truthy_int_def int_or_def length_args_ok_def Length_init_def
  kwargs_update_def base_kwargs_def

subsection \<open>Fields with a fixed choice list\<close>

text \<open>
  Claim C4. A field that declares a non-empty choice list converts to a selection field
  whose \<^verbatim>\<open>choices\<close> are the declared ones, whatever the class of the field and whatever
  overrides the caller gives; the result is the same for every registry and every
  self-conversion method, so no type-specific converter has a part in it.
\<close>

theorem choices_give_select_field:
  assumes "truthy (choices (base field))"
  shows "convert tff self model field field_args
      = Inr (Some (f_SelectField
          (set_kwarg (base_kwargs field field_args) (Choices (choices (base field))))))
    \<and> kw_choices (set_kwarg (base_kwargs field field_args) (Choices (choices (base field))))
      = Some (choices (base field))
    \<and> convert tff' self' model field field_args = convert tff self model field field_args"
  using assms by (simp add: convert_unfold)

theorem choices_give_select_field_witness:
  "truthy (choices (base compass))
   \<and> convert no_to_form_field (ModelConverter_init None) Person compass None
     = Inr (Some (f_SelectField
         \<lparr>kw_label = VStr ''compass'', kw_description = VStr [], kw_validators = [],
          kw_filters = [], kw_default = VNone,
          kw_choices = Some (VList [VTuple [VStr ''N'', VStr ''North''],
                                    VTuple [VStr ''S'', VStr ''South'']]),
          kw_extra = []\<rparr>))"
proof -
  have h: "truthy (choices (base compass))"
    by (simp add: compass_def)
  show ?thesis
    using h choices_give_select_field [OF h, of no_to_form_field "ModelConverter_init None"
        Person None]
    by (simp add: base_kwargs_def compass_def)
qed

subsection \<open>List and sorted-list fields\<close>

text \<open>
  Claim C7. \<^verbatim>\<open>conv_SortedList\<close> returns what \<^verbatim>\<open>conv_List\<close> returns, for every schema,
  field and \<^verbatim>\<open>kwargs\<close>. On a list or a sorted-list field \<^verbatim>\<open>conv_List\<close> does not look at
  its \<^verbatim>\<open>kwargs\<close>: it converts the element field with an empty dictionary of overrides and
  wraps the result in a field list with \<^verbatim>\<open>min_entries=0\<close>, no validators and no filters
  (an error of the element's conversion is passed on). Through \<^verbatim>\<open>convert\<close>, with a
  converter that \<^verbatim>\<open>__init__\<close> built, a sorted-list field converts as the list field with
  the same attributes does.
\<close>

theorem sorted_list_same_as_list:
  "conv_SortedList tff self model field kwargs = conv_List tff self model field kwargs
   \<and> conv_List tff self model (SortedListField b element) kwargs
       = conv_List tff self model (ListField b element) kwargs'
   \<and> conv_List tff self model (ListField b element) kwargs
       = (case convert tff self model element (Some []) of
            Inl e \<Rightarrow> Inl e
          | Inr unbound_field \<Rightarrow> Inr (Some (f_FieldList unbound_field 0 [] [])))
   \<and> convert tff (ModelConverter_init cs) model (SortedListField b element) field_args
       = convert tff (ModelConverter_init cs) model (ListField b element) field_args"
proof -
  have 1: "conv_SortedList tff self model field kwargs = conv_List tff self model field kwargs"
    by (simp add: conv_SortedList.simps)
  have 2: "conv_List tff self model (SortedListField b element) kw
       = conv_List tff self model (ListField b element) kw'" for kw kw'
    by (simp add: conv_List.simps)
  have 3: "conv_List tff self model (ListField b element) kwargs
       = (case convert tff self model element (Some []) of
            Inl e \<Rightarrow> Inl e
          | Inr unbound_field \<Rightarrow> Inr (Some (f_FieldList unbound_field 0 [] [])))"
    by (simp add: conv_List.simps)
  have k: "base_kwargs (SortedListField b element) field_args
      = base_kwargs (ListField b element) field_args"
    by (simp add: base_kwargs_def)
  have 4: "convert tff (ModelConverter_init cs) model (SortedListField b element) field_args
       = convert tff (ModelConverter_init cs) model (ListField b element) field_args"
    by (simp add: convert_unfold converters_init default_method_names call_converter.simps
        conv_SortedList.simps conv_List.simps k)
  show ?thesis using 1 2 3 4 by blast
qed

theorem sorted_list_same_as_list_witness:
  "conv_SortedList no_to_form_field (ModelConverter_init None) Person
     (SortedListField (plain (VStr ''tags'') True) (StringField (plain VNone False) VNone None None))
     (base_kwargs (SortedListField (plain (VStr ''tags'') True) (StringField (plain VNone False) VNone None None)) None)
   = Inr (Some (f_FieldList (Some (f_TextField
        \<lparr>kw_label = VNone, kw_description = VStr [], kw_validators = [], kw_filters = [],
         kw_default = VNone, kw_choices = None, kw_extra = []\<rparr>)) 0 [] []))"
  using sorted_list_same_as_list [of no_to_form_field "ModelConverter_init None" Person
     "SortedListField (plain (VStr ''tags'') True) (StringField (plain VNone False) VNone None None)"
     "base_kwargs (SortedListField (plain (VStr ''tags'') True) (StringField (plain VNone False) VNone None None)) None"]
  by (simp add: eval_defs plain_def no_to_form_field_def
      convert.simps call_converter.simps conv_List.simps)

subsection \<open>String fields\<close>

text \<open>
  Claim C10. Conversion of a string field without choices, with any converter that
  \<^verbatim>\<open>__init__\<close> built, is this. The validators are the list \<^verbatim>\<open>kwargs\<close> had (without an
  override of \<^verbatim>\<open>'validators'\<close>: the required validator for a required field, and
  nothing else), then a \<^verbatim>\<open>Regexp\<close> validator built from the field's regex when the field
  declares one (a compiled pattern is true), and nothing when it declares none. When a
  length attribute is true the length validator is constructed next: if its assertions
  fail, conversion raises \<^verbatim>\<open>AssertionError\<close>; otherwise it is appended after the regex
  validator. The result is then a text field with these validators, the multi-line one
  when \<^verbatim>\<open>max_length\<close> is -1.
\<close>

theorem string_field_regex_validator:
  assumes "\<not> truthy (choices b)"
  shows "convert tff (ModelConverter_init cs) model (StringField b rx mx mn) fa =
    (let kwargs = base_kwargs (StringField b rx mx mn) fa;
         with_regex = kw_validators kwargs @ (if truthy rx then [Regexp rx] else []);
         text_field = (if mx = Some (- 1) then f_TextAreaField else f_TextField)
     in if truthy_int mx \<or> truthy_int mn
        then (case Length_init (Some (int_or mx (- 1))) (Some (int_or mn (- 1))) of
                Inl e \<Rightarrow> Inl e
              | Inr v \<Rightarrow>
                  Inr (Some (text_field (kwargs\<lparr>kw_validators := with_regex @ [v]\<rparr>))))
        else Inr (Some (text_field (kwargs\<lparr>kw_validators := with_regex\<rparr>))))
    \<and> (override_validators fa = [] \<longrightarrow>
        kw_validators (base_kwargs (StringField b rx mx mn) fa)
          = (if required b then [Required] else []))"
proof -
  have 1: "convert tff (ModelConverter_init cs) model (StringField b rx mx mn) fa =
    (let kwargs = base_kwargs (StringField b rx mx mn) fa;
         with_regex = kw_validators kwargs @ (if truthy rx then [Regexp rx] else []);
         text_field = (if mx = Some (- 1) then f_TextAreaField else f_TextField)
     in if truthy_int mx \<or> truthy_int mn
        then (case Length_init (Some (int_or mx (- 1))) (Some (int_or mn (- 1))) of
                Inl e \<Rightarrow> Inl e
              | Inr v \<Rightarrow>
                  Inr (Some (text_field (kwargs\<lparr>kw_validators := with_regex @ [v]\<rparr>))))
        else Inr (Some (text_field (kwargs\<lparr>kw_validators := with_regex\<rparr>))))"
    using assms
    by (cases "Length_init (Some (int_or mx (- 1))) (Some (int_or mn (- 1)))")
       (simp_all add: convert_unfold converters_init default_method_names
         call_converter.simps conv_String_def string_common_def validators_append_def Let_def)
  have 2: "kw_validators (base_kwargs (StringField b rx mx mn) fa)
          = (if required b then [Required] else [])"
    if "override_validators fa = []"
    using base_kwargs_validators [OF that, of "StringField b rx mx mn"] by simp
  from 1 2 show ?thesis by blast
qed

theorem string_field_regex_validator_witness:
  "\<not> truthy (choices (plain (VStr ''code'') False))
   \<and> convert no_to_form_field (ModelConverter_init None) Person code_field None =
     Inr (Some (f_TextField
       \<lparr>kw_label = VStr ''code'', kw_description = VStr [],
        kw_validators = [Regexp (VObj ''[A-Z]+''), Length (Some (VInt 8)) (Some (VInt (- 1)))],
        kw_filters = [], kw_default = VNone, kw_choices = None, kw_extra = []\<rparr>))
   \<and> \<not> truthy (choices (plain (VStr ''body'') False))
   \<and> convert no_to_form_field (ModelConverter_init None) Person unbounded_text None =
     Inl AssertionError"
proof -
  have h: "\<not> truthy (choices (plain (VStr ''code'') False))"
    by (simp add: plain_def)
  have h': "\<not> truthy (choices (plain (VStr ''body'') False))"
    by (simp add: plain_def)
  show ?thesis
    using h h'
      string_field_regex_validator [OF h, of no_to_form_field None Person
        "VObj ''[A-Z]+''" "Some 8" None None]
      string_field_regex_validator [OF h', of no_to_form_field None Person
        VNone "Some (- 1)" None None]
    by (simp add: code_field_def unbounded_text_def base_kwargs_def plain_def
        truthy_int_def int_or_def length_args_ok_def Length_init_def)
qed

subsection \<open>The schema walk\<close>

text \<open>
  Claim C1. The round-trip schema, as the code converts it: the mapping has the keys
  \<^verbatim>\<open>name\<close>, \<^verbatim>\<open>age\<close> and \<^verbatim>\<open>tags\<close>; \<^verbatim>\<open>name\<close> is a text field with the required
  validator and \<^verbatim>\<open>Length(max=50, min=-1)\<close>; \<^verbatim>\<open>tags\<close> is a field list with
  \<^verbatim>\<open>min_entries=0\<close> around a text field. The integer field \<^verbatim>\<open>age\<close> has an empty
  validator list: \<^verbatim>\<open>_number_common\<close> tests \<^verbatim>\<open>field.max_value or field.min_value\<close>,
  which is false for the bounds \<^verbatim>\<open>None\<close> and \<^verbatim>\<open>0\<close>, so the declared minimum of 0
  gives no \<^verbatim>\<open>NumberRange\<close> validator.
\<close>

theorem round_trip_schema_fields:
  "model_fields tff Person None None None None =
    Inr [(''name'', f_TextField
            \<lparr>kw_label = VStr ''name'', kw_description = VStr [],
             kw_validators = [Required, Length (Some (VInt 50)) (Some (VInt (- 1)))],
             kw_filters = [], kw_default = VNone, kw_choices = None, kw_extra = []\<rparr>),
         (''age'', f_IntegerField
            \<lparr>kw_label = VStr ''age'', kw_description = VStr [], kw_validators = [],
             kw_filters = [], kw_default = VNone, kw_choices = None, kw_extra = []\<rparr>),
         (''tags'', f_FieldList
            (Some (f_TextField
              \<lparr>kw_label = VNone, kw_description = VStr [], kw_validators = [],
               kw_filters = [], kw_default = VNone, kw_choices = None, kw_extra = []\<rparr>))
            0 [] [])]"
  by (simp add: eval_defs Person_def plain_def
      model_fields.simps convert.simps call_converter.simps
      conv_List.simps Let_def)

text \<open>
  Claim C8, as the code has it. When \<^verbatim>\<open>only\<close> is not empty, \<^verbatim>\<open>model_fields\<close> returns
  what it returns without \<^verbatim>\<open>exclude\<close>, whatever \<^verbatim>\<open>exclude\<close> holds, and the keys of the
  mapping it returns are the field names of the schema that are in \<^verbatim>\<open>only\<close> and whose
  field converts to a form field.
\<close>

theorem only_wins_over_exclude:
  assumes "only \<noteq> []"
  shows "model_fields tff m (Some only) exclude fa conv = model_fields tff m (Some only) None fa conv
    \<and> (model_fields tff m (Some only) exclude fa conv = Inr d \<longrightarrow>
        fst ` set d =
          {n \<in> set (schema_field_names m). n \<in> set only
             \<and> (\<exists>f ff. map_of (fields_dict m) n = Some f
                  \<and> convert tff (converter_or_default conv) m f (field_args_or_empty fa n)
                      = Inr (Some ff))})"
proof -
  have w: "walked_names m (Some only) ex = filter (\<lambda>x. x \<in> set only) (schema_field_names m)" for ex
    using assms by (simp add: walked_names_def)
  have 1: "model_fields tff m (Some only) exclude fa conv = model_fields tff m (Some only) None fa conv"
    by (simp add: model_fields_unfold w)
  have 2: "fst ` set d =
          {n \<in> set (schema_field_names m). n \<in> set only
             \<and> (\<exists>f ff. map_of (fields_dict m) n = Some f
                  \<and> convert tff (converter_or_default conv) m f (field_args_or_empty fa n)
                      = Inr (Some ff))}"
    if "model_fields tff m (Some only) exclude fa conv = Inr d"
  proof -
    from that have "model_fields_loop tff (converter_or_default conv) m (field_args_or_empty fa)
        (filter (\<lambda>x. x \<in> set only) (schema_field_names m)) [] = Inr d"
      by (simp add: model_fields_unfold w split: if_splits)
    from loop_keys [OF this] show ?thesis by auto
  qed
  from 1 2 show ?thesis by blast
qed

theorem only_wins_over_exclude_witness:
  "[''name''] \<noteq> []
   \<and> model_fields no_to_form_field Person (Some [''name'']) (Some [''name'', ''tags'']) None None
     = Inr [(''name'', f_TextField
            \<lparr>kw_label = VStr ''name'', kw_description = VStr [],
             kw_validators = [Required, Length (Some (VInt 50)) (Some (VInt (- 1)))],
             kw_filters = [], kw_default = VNone, kw_choices = None, kw_extra = []\<rparr>)]"
proof -
  have h: "[''name''] \<noteq> []" by simp
  have e: "model_fields no_to_form_field Person (Some [''name'']) None None None
     = Inr [(''name'', f_TextField
            \<lparr>kw_label = VStr ''name'', kw_description = VStr [],
             kw_validators = [Required, Length (Some (VInt 50)) (Some (VInt (- 1)))],
             kw_filters = [], kw_default = VNone, kw_choices = None, kw_extra = []\<rparr>)]"
    by (simp add: eval_defs Person_def plain_def no_to_form_field_def
      model_fields.simps convert.simps call_converter.simps
      conv_List.simps Let_def)
  show ?thesis
    using only_wins_over_exclude [OF h, of no_to_form_field Person "Some [''name'', ''tags'']" None None] e
    by simp
qed

text \<open>
  With an empty \<^verbatim>\<open>only\<close> supplied next to \<^verbatim>\<open>exclude\<close>, C8 fails: the test
  \<^verbatim>\<open>if only:\<close> is false, \<^verbatim>\<open>exclude\<close> is applied, and the mapping has the keys that are
  not excluded, not the empty set of names that are in \<^verbatim>\<open>only\<close>; without \<^verbatim>\<open>exclude\<close>
  the mapping has every key.
\<close>

theorem empty_only_counterexample:
  "model_fields no_to_form_field Person (Some []) (Some [''name'']) None None
     = Inr [(''age'', f_IntegerField
            \<lparr>kw_label = VStr ''age'', kw_description = VStr [], kw_validators = [],
             kw_filters = [], kw_default = VNone, kw_choices = None, kw_extra = []\<rparr>),
           (''tags'', f_FieldList
            (Some (f_TextField
              \<lparr>kw_label = VNone, kw_description = VStr [], kw_validators = [],
               kw_filters = [], kw_default = VNone, kw_choices = None, kw_extra = []\<rparr>))
            0 [] [])]
   \<and> model_fields no_to_form_field Person (Some []) None None None
     = Inr [(''name'', f_TextField
            \<lparr>kw_label = VStr ''name'', kw_description = VStr [],
             kw_validators = [Required, Length (Some (VInt 50)) (Some (VInt (- 1)))],
             kw_filters = [], kw_default = VNone, kw_choices = None, kw_extra = []\<rparr>),
           (''age'', f_IntegerField
            \<lparr>kw_label = VStr ''age'', kw_description = VStr [], kw_validators = [],
             kw_filters = [], kw_default = VNone, kw_choices = None, kw_extra = []\<rparr>),
           (''tags'', f_FieldList
            (Some (f_TextField
              \<lparr>kw_label = VNone, kw_description = VStr [], kw_validators = [],
               kw_filters = [], kw_default = VNone, kw_choices = None, kw_extra = []\<rparr>))
            0 [] [])]"
  by (simp add: eval_defs Person_def plain_def no_to_form_field_def
      model_fields.simps convert.simps call_converter.simps conv_List.simps Let_def)

text \<open>
  Claim C5, as the code has it. A geo-location, generic-reference or object-id field that
  declares no choice list converts to nothing, with any converter that \<^verbatim>\<open>__init__\<close>
  built, and the mapping that \<^verbatim>\<open>model_fields\<close> returns for a schema that holds such a
  field under a name does not have that name. (With a choice list the field converts to a
  selection field, as every field does.)
\<close>

theorem unsupported_field_yields_nothing:
  assumes "field = GeoLocationField b \<or> field = GenericReferenceField b \<or> field = ObjectIdField b"
    and "\<not> truthy (choices b)"
  shows "convert tff (ModelConverter_init cs) model field field_args = Inr None
    \<and> (map_of (fields_dict m) n = Some field \<longrightarrow>
        model_fields tff m only exclude fa (map_option ModelConverter_init conv) = Inr d \<longrightarrow>
        n \<notin> fst ` set d)"
proof -
  have c: "convert tff (ModelConverter_init cs') model' field fa' = Inr None" for cs' model' fa'
    using assms
    by (auto simp: convert_unfold converters_init default_method_names call_converter.simps
        conv_GeoLocation_def conv_GenericReference_def conv_ObjectId_def)
  have k: "n \<notin> fst ` set d"
    if f: "map_of (fields_dict m) n = Some field"
      and r: "model_fields tff m only exclude fa (map_option ModelConverter_init conv) = Inr d"
  proof -
    obtain cs' where cs': "converter_or_default (map_option ModelConverter_init conv)
        = ModelConverter_init cs'"
      by (cases conv) (auto simp: converter_or_default_def)
    from r have "model_fields_loop tff (ModelConverter_init cs') m (field_args_or_empty fa)
        (walked_names m only exclude) [] = Inr d"
      by (simp add: model_fields_unfold cs' split: if_splits)
    from loop_keys [OF this] show ?thesis using f c by auto
  qed
  from c k show ?thesis by blast
qed

theorem unsupported_field_yields_nothing_witness:
  "(ObjectIdField (plain (VStr ''id'') False) = GeoLocationField (plain (VStr ''id'') False)
    \<or> ObjectIdField (plain (VStr ''id'') False) = GenericReferenceField (plain (VStr ''id'') False)
    \<or> ObjectIdField (plain (VStr ''id'') False) = ObjectIdField (plain (VStr ''id'') False))
   \<and> \<not> truthy (choices (plain (VStr ''id'') False))
   \<and> convert no_to_form_field (ModelConverter_init None) Place
        (ObjectIdField (plain (VStr ''id'') False)) None = Inr None
   \<and> map_of (fields_dict Place) ''id'' = Some (ObjectIdField (plain (VStr ''id'') False))
   \<and> model_fields no_to_form_field Place None None None None =
       Inr [(''compass'', f_SelectField
         \<lparr>kw_label = VStr ''compass'', kw_description = VStr [], kw_validators = [],
          kw_filters = [], kw_default = VNone,
          kw_choices = Some (VList [VTuple [VStr ''N'', VStr ''North''],
                                    VTuple [VStr ''S'', VStr ''South'']]),
          kw_extra = []\<rparr>)]
   \<and> ''id'' \<notin> fst ` set [(''compass'', f_SelectField
         \<lparr>kw_label = VStr ''compass'', kw_description = VStr [], kw_validators = [],
          kw_filters = [], kw_default = VNone,
          kw_choices = Some (VList [VTuple [VStr ''N'', VStr ''North''],
                                    VTuple [VStr ''S'', VStr ''South'']]),
          kw_extra = []\<rparr>)]"
proof -
  have h1: "ObjectIdField (plain (VStr ''id'') False) = GeoLocationField (plain (VStr ''id'') False)
    \<or> ObjectIdField (plain (VStr ''id'') False) = GenericReferenceField (plain (VStr ''id'') False)
    \<or> ObjectIdField (plain (VStr ''id'') False) = ObjectIdField (plain (VStr ''id'') False)"
    by simp
  have h2: "\<not> truthy (choices (plain (VStr ''id'') False))"
    by (simp add: plain_def)
  have e: "model_fields no_to_form_field Place None None None None =
       Inr [(''compass'', f_SelectField
         \<lparr>kw_label = VStr ''compass'', kw_description = VStr [], kw_validators = [],
          kw_filters = [], kw_default = VNone,
          kw_choices = Some (VList [VTuple [VStr ''N'', VStr ''North''],
                                    VTuple [VStr ''S'', VStr ''South'']]),
          kw_extra = []\<rparr>)]"
    by (simp add: eval_defs Place_def compass_def plain_def no_to_form_field_def
      model_fields.simps convert.simps call_converter.simps Let_def)
  have f: "map_of (fields_dict Place) ''id'' = Some (ObjectIdField (plain (VStr ''id'') False))"
    by (simp add: Place_def)
  show ?thesis
    using h1 h2 e f
      unsupported_field_yields_nothing [OF h1 h2, of no_to_form_field None Place None Place "''id''"
        None None None None]
    by simp
qed

text \<open>
  Without the condition on the choice list, C5 fails for a geo-location field that
  declares choices: it converts to a selection field, and the mapping of its schema holds
  its name.
\<close>

theorem geo_field_with_choices_counterexample:
  "convert no_to_form_field (ModelConverter_init None) Place compass None =
     Inr (Some (f_SelectField
         \<lparr>kw_label = VStr ''compass'', kw_description = VStr [], kw_validators = [],
          kw_filters = [], kw_default = VNone,
          kw_choices = Some (VList [VTuple [VStr ''N'', VStr ''North''],
                                    VTuple [VStr ''S'', VStr ''South'']]),
          kw_extra = []\<rparr>))
   \<and> map_of (fields_dict Place) ''compass'' = Some compass
   \<and> type_name compass = ''GeoLocationField''
   \<and> model_fields no_to_form_field Place None None None None =
       Inr [(''compass'', f_SelectField
         \<lparr>kw_label = VStr ''compass'', kw_description = VStr [], kw_validators = [],
          kw_filters = [], kw_default = VNone,
          kw_choices = Some (VList [VTuple [VStr ''N'', VStr ''North''],
                                    VTuple [VStr ''S'', VStr ''South'']]),
          kw_extra = []\<rparr>)]"
  by (simp add: eval_defs Place_def compass_def plain_def no_to_form_field_def
      model_fields.simps convert.simps call_converter.simps Let_def)

subsection \<open>The registry against a caller's converters\<close>

text \<open>
  Claim C3, as the code has it. \<^verbatim>\<open>__init__\<close> writes its decorated methods over the
  caller's dictionary: a class name that a decorated method handles maps to that method,
  whatever the caller supplied for it, and a caller's entry stays only under a name that
  no decorated method handles. For a field without choices and without a
  \<^verbatim>\<open>to_form_field\<close> method, \<^verbatim>\<open>convert\<close> calls the decorated method when the name of the
  field's class has one, and otherwise the caller's function for that name, if any.
\<close>

theorem default_methods_win:
  "converters (ModelConverter_init cs) classname =
    (case default_method classname of
       Some m \<Rightarrow> Some (BoundMethod m)
     | None \<Rightarrow> (case cs of None \<Rightarrow> None | Some d \<Rightarrow> map_option CallerFn (d classname)))
   \<and> (\<not> truthy (choices (base field)) \<longrightarrow> \<not> hasattr_to_form_field field \<longrightarrow>
       convert tff (ModelConverter_init cs) model field fa =
        (case default_method (type_name field) of
           Some m \<Rightarrow> call_converter tff (ModelConverter_init cs) (BoundMethod m) model field
                      (base_kwargs field fa)
         | None \<Rightarrow> (case cs of
                      None \<Rightarrow> Inr None
                    | Some d \<Rightarrow> (case d (type_name field) of
                                  None \<Rightarrow> Inr None
                                | Some g \<Rightarrow> Inr (g model field (base_kwargs field fa))))))"
  by (auto simp: convert_unfold converters_init call_converter.simps split: option.splits)

theorem default_methods_win_witness:
  "converters (ModelConverter_init (Some [''StringField'' \<mapsto> caller_string,
       ''UUIDField'' \<mapsto> caller_string])) ''StringField'' = Some (BoundMethod ''conv_String'')
   \<and> converters (ModelConverter_init (Some [''StringField'' \<mapsto> caller_string,
       ''UUIDField'' \<mapsto> caller_string])) ''UUIDField'' = Some (CallerFn caller_string)
   \<and> convert no_to_form_field (ModelConverter_init (Some [''StringField'' \<mapsto> caller_string,
       ''UUIDField'' \<mapsto> caller_string])) Person uuid_field None
     = Inr (Some (f_BooleanField
         \<lparr>kw_label = VStr ''uuid'', kw_description = VStr [], kw_validators = [],
          kw_filters = [], kw_default = VNone, kw_choices = None, kw_extra = []\<rparr>))"
  using
    default_methods_win [of "Some [''StringField'' \<mapsto> caller_string, ''UUIDField'' \<mapsto> caller_string]"
      "''StringField''" uuid_field no_to_form_field Person None]
    default_methods_win [of "Some [''StringField'' \<mapsto> caller_string, ''UUIDField'' \<mapsto> caller_string]"
      "''UUIDField''" uuid_field no_to_form_field Person None]
  by (simp add: default_method_def decorated_methods_def uuid_field_def plain_def
      base_kwargs_def caller_string_def)

text \<open>
  With the caller's entries winning, C3 fails: a caller's entry for \<^verbatim>\<open>StringField\<close> is
  not in the registry, and a string field converts to the text field of
  \<^verbatim>\<open>conv_String\<close>, not to what the caller's function returns.
\<close>

theorem caller_converter_counterexample:
  "converters (ModelConverter_init (Some [''StringField'' \<mapsto> caller_string])) ''StringField''
     \<noteq> Some (CallerFn caller_string)
   \<and> convert no_to_form_field (ModelConverter_init (Some [''StringField'' \<mapsto> caller_string]))
       Person (StringField (plain (VStr ''name'') False) VNone None None) None
     = Inr (Some (f_TextField
         \<lparr>kw_label = VStr ''name'', kw_description = VStr [], kw_validators = [],
          kw_filters = [], kw_default = VNone, kw_choices = None, kw_extra = []\<rparr>))
   \<and> caller_string Person (StringField (plain (VStr ''name'') False) VNone None None)
        (base_kwargs (StringField (plain (VStr ''name'') False) VNone None None) None)
     = Some (f_BooleanField
         \<lparr>kw_label = VStr ''name'', kw_description = VStr [], kw_validators = [],
          kw_filters = [], kw_default = VNone, kw_choices = None, kw_extra = []\<rparr>)"
  by (simp add: eval_defs caller_string_def plain_def no_to_form_field_def
      convert.simps call_converter.simps Let_def)

subsection \<open>Required fields\<close>





subsection \<open>Overrides of a single key\<close>

lemma convert_IntField:
  "\<not> truthy (choices b) \<Longrightarrow>
   convert tff (ModelConverter_init cs) model (IntField b mn mx) fa =
     Inr (Some (f_IntegerField
       ((base_kwargs (IntField b mn mx) fa)
         \<lparr>kw_validators :=
            kw_validators (base_kwargs (IntField b mn mx) fa)
            @ (if truthy mx \<or> truthy mn then [NumberRange mx mn] else [])\<rparr>)))"
  by (simp add: convert_unfold converters_init default_method_names call_converter.simps
      conv_Int_def number_common_def validators_append_def)

text \<open>
  Claim C9. Let a schema hold an integer field without choices under a name, and let
  \<^verbatim>\<open>model_fields\<close> return a mapping without \<^verbatim>\<open>field_args\<close>. Then it returns a mapping
  with \<^verbatim>\<open>field_args\<close> that overrides the label of that name only; under every other
  name both mappings hold the same; and under the name itself (when the filters let it
  through) the mapping holds an integer field whose \<^verbatim>\<open>label\<close> is the override and whose
  other keys are the defaults: empty description, the validators that conversion
  appends, no filters, the field's default.
\<close>

theorem label_override_changes_label_only:
  assumes fld: "map_of (fields_dict m) a = Some (IntField b mn mx)"
    and nc: "\<not> truthy (choices b)"
    and d0: "model_fields tff m only exclude None (map_option ModelConverter_init conv) = Inr d0"
  shows "\<exists>d1. model_fields tff m only exclude (Some [a \<mapsto> [Label v]])
                (map_option ModelConverter_init conv) = Inr d1
      \<and> (\<forall>n. n \<noteq> a \<longrightarrow> map_of d1 n = map_of d0 n)
      \<and> (a \<in> set (walked_names m only exclude) \<longrightarrow>
           map_of d0 a = Some (f_IntegerField (int_kwargs b mn mx))
         \<and> map_of d1 a = Some (f_IntegerField ((int_kwargs b mn mx)\<lparr>kw_label := v\<rparr>)))
      \<and> (a \<notin> set (walked_names m only exclude) \<longrightarrow> map_of d1 a = map_of d0 a)"
proof -
  obtain cs where cs: "converter_or_default (map_option ModelConverter_init conv)
        = ModelConverter_init cs"
    by (cases conv) (auto simp: converter_or_default_def)
  let ?c = "ModelConverter_init cs"
  let ?names = "walked_names m only exclude"
  let ?fa1 = "[a \<mapsto> [Label v]]"
  from d0 have doc: "''BaseDocument'' \<in> set (mro m)"
    and l0: "model_fields_loop tff ?c m Map.empty ?names [] = Inr d0"
    by (simp_all add: model_fields_unfold cs field_args_or_empty_def split: if_splits)
  have c0: "convert tff ?c m (IntField b mn mx) None = Inr (Some (f_IntegerField (int_kwargs b mn mx)))"
    using nc by (simp add: convert_IntField base_kwargs_def int_kwargs_def validators_append_def)
  have c1: "convert tff ?c m (IntField b mn mx) (Some [Label v])
      = Inr (Some (f_IntegerField ((int_kwargs b mn mx)\<lparr>kw_label := v\<rparr>)))"
    using nc by (simp add: convert_IntField base_kwargs_def int_kwargs_def validators_append_def
        kwargs_update_def)
  have ok0: "\<forall>n \<in> set ?names. \<exists>f r. map_of (fields_dict m) n = Some f
      \<and> convert tff ?c m f (Map.empty n) = Inr r"
    using l0 loop_succeeds_iff [of tff ?c m Map.empty ?names "[]"] by blast
  have "\<forall>n \<in> set ?names. \<exists>f r. map_of (fields_dict m) n = Some f
      \<and> convert tff ?c m f (?fa1 n) = Inr r"
  proof
    fix n assume "n \<in> set ?names"
    with ok0 obtain f r where f: "map_of (fields_dict m) n = Some f"
      and r: "convert tff ?c m f None = Inr r" by auto
    show "\<exists>f r. map_of (fields_dict m) n = Some f \<and> convert tff ?c m f (?fa1 n) = Inr r"
    proof (cases "n = a")
      case True
      with fld c1 show ?thesis by simp
    next
      case False
      with f r show ?thesis by simp
    qed
  qed
  then obtain d1 where l1: "model_fields_loop tff ?c m ?fa1 ?names [] = Inr d1"
    using loop_succeeds_iff [of tff ?c m ?fa1 ?names "[]"] by blast
  have r1: "model_fields tff m only exclude (Some ?fa1) (map_option ModelConverter_init conv) = Inr d1"
    using doc l1 by (simp add: model_fields_unfold cs field_args_or_empty_def)
  have other: "map_of d1 n = map_of d0 n" if "n \<noteq> a" for n
    using that loop_map_of [OF l0, of n] loop_map_of [OF l1, of n]
    by (simp cong: option.case_cong if_cong)
  have inn: "map_of d0 a = Some (f_IntegerField (int_kwargs b mn mx))
         \<and> map_of d1 a = Some (f_IntegerField ((int_kwargs b mn mx)\<lparr>kw_label := v\<rparr>))"
    if "a \<in> set ?names"
    using that loop_map_of [OF l0, of a] loop_map_of [OF l1, of a] fld c0 c1 by simp
  have out: "map_of d1 a = map_of d0 a" if "a \<notin> set ?names"
    using that loop_map_of [OF l0, of a] loop_map_of [OF l1, of a] by simp
  from r1 other inn out show ?thesis by blast
qed

theorem label_override_changes_label_only_witness:
  "map_of (fields_dict Person) ''age'' = Some (IntField (plain (VStr ''age'') False) (VInt 0) VNone)
   \<and> \<not> truthy (choices (plain (VStr ''age'') False))
   \<and> model_fields no_to_form_field Person None None
        (Some [''age'' \<mapsto> [Label (VStr ''Years'')]]) None =
      Inr [(''name'', f_TextField
            \<lparr>kw_label = VStr ''name'', kw_description = VStr [],
             kw_validators = [Required, Length (Some (VInt 50)) (Some (VInt (- 1)))],
             kw_filters = [], kw_default = VNone, kw_choices = None, kw_extra = []\<rparr>),
           (''age'', f_IntegerField
            \<lparr>kw_label = VStr ''Years'', kw_description = VStr [], kw_validators = [],
             kw_filters = [], kw_default = VNone, kw_choices = None, kw_extra = []\<rparr>),
           (''tags'', f_FieldList
            (Some (f_TextField
              \<lparr>kw_label = VNone, kw_description = VStr [], kw_validators = [],
               kw_filters = [], kw_default = VNone, kw_choices = None, kw_extra = []\<rparr>))
            0 [] [])]"
proof -
  have h1: "map_of (fields_dict Person) ''age''
      = Some (IntField (plain (VStr ''age'') False) (VInt 0) VNone)"
    by (simp add: Person_def)
  have h2: "\<not> truthy (choices (plain (VStr ''age'') False))"
    by (simp add: plain_def)
  have e0: "model_fields no_to_form_field Person None None None
        (map_option ModelConverter_init None) =
      Inr [(''name'', f_TextField
            \<lparr>kw_label = VStr ''name'', kw_description = VStr [],
             kw_validators = [Required, Length (Some (VInt 50)) (Some (VInt (- 1)))],
             kw_filters = [], kw_default = VNone, kw_choices = None, kw_extra = []\<rparr>),
           (''age'', f_IntegerField
            \<lparr>kw_label = VStr ''age'', kw_description = VStr [], kw_validators = [],
             kw_filters = [], kw_default = VNone, kw_choices = None, kw_extra = []\<rparr>),
           (''tags'', f_FieldList
            (Some (f_TextField
              \<lparr>kw_label = VNone, kw_description = VStr [], kw_validators = [],
               kw_filters = [], kw_default = VNone, kw_choices = None, kw_extra = []\<rparr>))
            0 [] [])]"
    by (simp add: eval_defs Person_def plain_def no_to_form_field_def
      model_fields.simps convert.simps call_converter.simps
        conv_List.simps Let_def)
  have e1: "model_fields no_to_form_field Person None None
        (Some [''age'' \<mapsto> [Label (VStr ''Years'')]]) None =
      Inr [(''name'', f_TextField
            \<lparr>kw_label = VStr ''name'', kw_description = VStr [],
             kw_validators = [Required, Length (Some (VInt 50)) (Some (VInt (- 1)))],
             kw_filters = [], kw_default = VNone, kw_choices = None, kw_extra = []\<rparr>),
           (''age'', f_IntegerField
            \<lparr>kw_label = VStr ''Years'', kw_description = VStr [], kw_validators = [],
             kw_filters = [], kw_default = VNone, kw_choices = None, kw_extra = []\<rparr>),
           (''tags'', f_FieldList
            (Some (f_TextField
              \<lparr>kw_label = VNone, kw_description = VStr [], kw_validators = [],
               kw_filters = [], kw_default = VNone, kw_choices = None, kw_extra = []\<rparr>))
            0 [] [])]"
    by (simp add: eval_defs Person_def plain_def no_to_form_field_def
      model_fields.simps convert.simps call_converter.simps
        conv_List.simps Let_def)
  show ?thesis
    using h1 h2 e1
      label_override_changes_label_only [OF h1 h2 e0, of "VStr ''Years''"]
    by simp
qed

subsection \<open>The type error of the schema walk\<close>







end
